theory Spec2Isabelle
  imports Main "HOL-Library.AList"
begin

section \<open>JavaScript values and plain objects\<close>

text \<open>
  The values stored in attributes. A number is an integer or \<open>NaN\<close>. An object other
  than a plain one is a reference number: its properties are not followed, and it has no
  own enumerable property (a \<open>Date\<close>, say). A function object is known by its name.
\<close>

datatype jsval =
    JUndefined
  | JNull
  | JBool bool
  | JNum int
  | JNaN
  | JStr string
  | JRef nat
  | JFun string

text \<open>The strict equality \<open>===\<close>: \<open>NaN\<close> is not equal to itself.\<close>

definition strict_eq :: "jsval \<Rightarrow> jsval \<Rightarrow> bool" where
  "strict_eq a b \<longleftrightarrow> a = b \<and> a \<noteq> JNaN"

text \<open>
  A plain object \<open>{}\<close> is an association list in the order of \<open>Object.keys\<close>
  (insertion order; index-like property names are not used); \<open>delete o[k]\<close> is
  \<open>AList.delete k o\<close>, and the assignment \<open>o[k] = v\<close> is \<open>put\<close> below.
\<close>

type_synonym obj = "(string \<times> jsval) list"

definition hasOwnProperty :: "obj \<Rightarrow> string \<Rightarrow> bool" where
  "hasOwnProperty ob name \<longleftrightarrow> name \<in> set (map fst ob)"

text \<open>
  Every plain object inherits from \<open>Object.prototype\<close>; the operator \<open>in\<close> and a
  property read consult it, \<open>hasOwnProperty\<close> and \<open>Object.keys\<close> do not.
\<close>

definition Object_prototype :: obj where
  "Object_prototype =
     map (\<lambda>n. (n, JFun n))
       [''constructor'', ''toString'', ''toLocaleString'', ''valueOf'', ''hasOwnProperty'',
        ''isPrototypeOf'', ''propertyIsEnumerable'', ''__defineGetter__'', ''__defineSetter__'',
        ''__lookupGetter__'', ''__lookupSetter__'']
     @ [(''__proto__'', JRef 0)]"

definition inherited :: "string \<Rightarrow> bool" where
  "inherited name \<longleftrightarrow> hasOwnProperty Object_prototype name"

definition in_obj :: "string \<Rightarrow> obj \<Rightarrow> bool" where
  "in_obj name ob \<longleftrightarrow> hasOwnProperty ob name \<or> inherited name"

definition getProp :: "obj \<Rightarrow> string \<Rightarrow> jsval" where
  "getProp ob name =
     (case map_of ob name of
        Some v \<Rightarrow> v
      | None \<Rightarrow> (case map_of Object_prototype name of Some v \<Rightarrow> v | None \<Rightarrow> JUndefined))"

text \<open>
  The assignment \<open>o[k] = v\<close> on a plain object. The name \<open>__proto__\<close> is an accessor
  of \<open>Object.prototype\<close> (read above as the reference \<open>0\<close>): assigning to it runs the
  setter and never creates an own property. The setter ignores a primitive; that it
  replaces the prototype when given an object or \<open>null\<close> is not followed here, the
  objects of the model keep \<open>Object.prototype\<close>.
\<close>

definition put :: "string \<Rightarrow> jsval \<Rightarrow> obj \<Rightarrow> obj" where
  "put name v ob = (if name = ''__proto__'' then ob else AList.update name v ob)"

datatype jserror =
    ValidationError "(string \<times> jsval) list"
  | Error string
  | TypeError string
  | Failure jsval

section \<open>validations.js\<close>

text \<open>A validator receives the attribute value and the bound extra arguments and returns
  the pair \<open>[pass, message]\<close>.\<close>

type_synonym validator = "jsval list \<Rightarrow> bool \<times> jsval"

definition arg0 :: "jsval list \<Rightarrow> jsval" where
  "arg0 args = (case args of [] \<Rightarrow> JUndefined | v # _ \<Rightarrow> v)"

definition isString :: validator where
  "isString args =
     (case arg0 args of JStr _ \<Rightarrow> (True, JUndefined) | _ \<Rightarrow> (False, JStr ''expected string''))"

definition isNumber :: validator where
  "isNumber args =
     (case arg0 args of
        JNum _ \<Rightarrow> (True, JUndefined)
      | JNaN \<Rightarrow> (True, JUndefined)
      | _ \<Rightarrow> (False, JStr ''expected number''))"

definition isBoolean :: validator where
  "isBoolean args =
     (if arg0 args \<noteq> JBool True \<and> arg0 args \<noteq> JBool False
      then (False, JStr ''expected boolean'') else (True, JUndefined))"

definition isNotNull :: validator where
  "isNotNull args =
     (if arg0 args = JNull then (False, JStr ''expected not null'') else (True, JUndefined))"

section \<open>model.js\<close>

subsection \<open>Schema\<close>

datatype attr_default = NoDefault | DefaultFactory "unit \<Rightarrow> jsval" | DefaultValue jsval

text \<open>
  An attribute descriptor. \<open>column = None\<close> is a descriptor without an own \<open>column\<close>
  property; \<open>type_new\<close> is the value of \<open>new attr.type()\<close>.
\<close>

record attr_desc =
  column :: "string option"
  is_id :: bool
  dflt :: attr_default
  defaultOfType :: bool
  type_new :: jsval

text \<open>The state owned by one instance: \<open>self.values\<close>, and the events it has emitted
  (\<open>emitted\<close> records the calls of \<open>self.methods.emit\<close>; what the callee does with
  them, its listeners, is outside the model).\<close>

record model_instance =
  current :: obj
  original :: obj
  emitted :: "(string \<times> jsval list) list"

text \<open>A hook runs with the instance as \<open>this\<close>; it may change the instance or throw, and
  does nothing else.\<close>

type_synonym hook = "model_instance \<Rightarrow> jserror + model_instance"

text \<open>
  A function supplied with the schema (a model method, or a function object held as a
  value), called on an instance with arguments: it throws, or returns a value or a plain
  object, and may change the instance.
\<close>

datatype retval = RVal jsval | RObj obj

type_synonym fn = "model_instance \<Rightarrow> jsval list \<Rightarrow> jserror + retval \<times> model_instance"

record hooks_rec =
  preCreate :: "hook list option"
  postCreate :: "hook list option"
  preUpdate :: "hook list option"
  postUpdate :: "hook list option"

text \<open>An entry of a validation list: a function, an array \<open>[fn, arg, ...]\<close>, or
  anything else.\<close>

datatype validation = VFun validator | VArr validator "jsval list" | VOther jsval

text \<open>The options of a schema. \<open>o_methods\<close> is \<open>opts.methods\<close>; \<open>o_functions\<close> says
  what a call of the function object of a given name does.\<close>

record model_opts =
  o_methods :: "(string \<times> fn) list"
  o_functions :: "string \<Rightarrow> fn"
  o_validations :: "(string \<times> validation list) list"
  o_initializer :: "(obj option \<Rightarrow> jsval list \<Rightarrow> model_instance \<Rightarrow> model_instance) option"
  o_hooks :: hooks_rec
  o_table :: string

record model =
  attrs :: "(string \<times> attr_desc) list"
  modelMethods :: "(string \<times> fn) list"
  function_of :: "string \<Rightarrow> fn"
  validations :: "(string \<times> validation list) list"
  initializer :: "(obj option \<Rightarrow> jsval list \<Rightarrow> model_instance \<Rightarrow> model_instance) option"
  hooks :: hooks_rec
  table :: string
  id_attr :: "string option"

text \<open>\<open>Model(attrs, opts)\<close>: the column defaults to the attribute name, and the last
  attribute flagged \<open>id\<close> becomes the identity attribute.\<close>

definition with_column :: "string \<times> attr_desc \<Rightarrow> string \<times> attr_desc" where
  "with_column na =
     (case column (snd na) of
        None \<Rightarrow> (fst na, (snd na)\<lparr>column := Some (fst na)\<rparr>)
      | Some _ \<Rightarrow> na)"

definition Model :: "(string \<times> attr_desc) list \<Rightarrow> model_opts \<Rightarrow> model" where
  "Model as opts =
     \<lparr> attrs = map with_column as,
       modelMethods = o_methods opts,
       function_of = o_functions opts,
       validations = o_validations opts,
       initializer = o_initializer opts,
       hooks = o_hooks opts,
       table = o_table opts,
       id_attr = foldl (\<lambda>i na. if is_id (snd na) then Some (fst na) else i) None as \<rparr>"

subsection \<open>Base methods\<close>

definition checkpoint :: "model_instance \<Rightarrow> model_instance" where
  "checkpoint self = self\<lparr>original := []\<rparr>"

definition hasChanged :: "model_instance \<Rightarrow> string \<Rightarrow> bool" where
  "hasChanged self name \<longleftrightarrow> hasOwnProperty (original self) name"

text \<open>\<open>attr\<close>, \<open>changed\<close> and \<open>original\<close> dispatch on their argument: absent
  (\<open>_all\<close>), a string (\<open>_one\<close>) or an array of names (\<open>_many\<close>).\<close>

definition attr_one :: "model_instance \<Rightarrow> string \<Rightarrow> jsval" where
  "attr_one self name = getProp (current self) name"

definition attr_many :: "model_instance \<Rightarrow> string list \<Rightarrow> obj" where
  "attr_many self names =
     foldl (\<lambda>ob name. if hasOwnProperty (current self) name
                        then put name (getProp (current self) name) ob else ob)
       [] names"

definition attr_all :: "model_instance \<Rightarrow> obj" where
  "attr_all self = current self"

definition changed_one :: "model_instance \<Rightarrow> string \<Rightarrow> jsval" where
  "changed_one self name =
     (if hasOwnProperty (original self) name then getProp (current self) name else JUndefined)"

definition changed_many :: "model_instance \<Rightarrow> string list \<Rightarrow> obj" where
  "changed_many self names =
     foldl (\<lambda>ob name. if hasOwnProperty (original self) name
                        then put name (getProp (current self) name) ob else ob)
       [] names"

definition changed_all :: "model_instance \<Rightarrow> obj" where
  "changed_all self =
     foldl (\<lambda>ob name. put name (getProp (current self) name) ob)
       [] (map fst (original self))"

definition original_one :: "model_instance \<Rightarrow> string \<Rightarrow> jsval" where
  "original_one self name = getProp (original self) name"

definition original_many :: "model_instance \<Rightarrow> string list \<Rightarrow> obj" where
  "original_many self names =
     foldl (\<lambda>ob name. if hasOwnProperty (original self) name
                        then put name (getProp (original self) name) ob else ob)
       [] names"

definition original_all :: "model_instance \<Rightarrow> obj" where
  "original_all self = original self"

text \<open>\<open>validate\<close>: the inner \<open>for\<close> loop over the entries of one attribute, the
  \<open>forEach\<close> over the attributes, and the final test of \<open>failed\<close>.\<close>

fun validate_entries ::
  "obj \<Rightarrow> string \<Rightarrow> validation list \<Rightarrow> (string \<times> jsval) list
    \<Rightarrow> jserror + (string \<times> jsval) list" where
  "validate_entries cur p [] failed = Inr failed"
| "validate_entries cur p (VArr fn extra # vs) failed =
     (let res = fn ([getProp cur p] @ extra)
      in validate_entries cur p vs (if \<not> fst res then failed @ [(p, snd res)] else failed))"
| "validate_entries cur p (VFun fn # vs) failed =
     (let res = fn [getProp cur p]
      in validate_entries cur p vs (if \<not> fst res then failed @ [(p, snd res)] else failed))"
| "validate_entries cur p (VOther v # vs) failed =
     Inl (Error ''Expected validation function'')"

fun validate_props ::
  "obj \<Rightarrow> (string \<times> validation list) list \<Rightarrow> (string \<times> jsval) list
    \<Rightarrow> jserror + (string \<times> jsval) list" where
  "validate_props cur [] failed = Inr failed"
| "validate_props cur ((p, vs) # rest) failed =
     (case validate_entries cur p vs failed of
        Inl e \<Rightarrow> Inl e
      | Inr failed' \<Rightarrow> validate_props cur rest failed')"

definition validate :: "model \<Rightarrow> model_instance \<Rightarrow> jserror + unit" where
  "validate m self =
     (case validate_props (current self) (validations m) [] of
        Inl e \<Rightarrow> Inl e
      | Inr failed \<Rightarrow> if length failed > 0 then Inl (ValidationError failed) else Inr ())"

subsection \<open>Construction\<close>

text \<open>The initial value of one attribute, in the order of the source's \<open>if\<close> chain.\<close>

definition truthy_str :: "string option \<Rightarrow> bool" where
  "truthy_str s \<longleftrightarrow> (case s of None \<Rightarrow> False | Some x \<Rightarrow> x \<noteq> [])"

definition initial_value :: "obj option \<Rightarrow> string \<Rightarrow> attr_desc \<Rightarrow> jsval" where
  "initial_value raw attrName a =
     (case raw of
        Some r \<Rightarrow>
          if hasOwnProperty r attrName then getProp r attrName
          else if truthy_str (column a) \<and> hasOwnProperty r (the (column a))
            then getProp r (the (column a))
          else (case dflt a of
                  DefaultFactory f \<Rightarrow> f ()
                | d \<Rightarrow> if defaultOfType a then type_new a
                       else (case d of DefaultValue v \<Rightarrow> v | _ \<Rightarrow> JNull))
      | None \<Rightarrow>
          (case dflt a of
             DefaultFactory f \<Rightarrow> f ()
           | d \<Rightarrow> if defaultOfType a then type_new a
                  else (case d of DefaultValue v \<Rightarrow> v | _ \<Rightarrow> JNull)))"

definition ModelInstance :: "model \<Rightarrow> obj option \<Rightarrow> jsval list \<Rightarrow> model_instance" where
  "ModelInstance m raw argv =
     (let self0 = \<lparr> current = [], original = [], emitted = [] \<rparr>;
          self1 = (case initializer m of Some f \<Rightarrow> f raw argv self0 | None \<Rightarrow> self0)
      in foldl (\<lambda>self na.
                  self\<lparr>current := put (fst na) (initial_value raw (fst na) (snd na))
                                     (current self)\<rparr>)
           self1 (attrs m))"

definition modelConstructor :: "model \<Rightarrow> obj option \<Rightarrow> model_instance" where
  "modelConstructor m raw = ModelInstance m raw []"

subsection \<open>The proxy traps\<close>

text \<open>The own property names of \<open>self.methods\<close>: the event emitter's, the base methods
  and the model's methods.\<close>

definition EventEmitter_names :: "string list" where
  "EventEmitter_names =
     [''setMaxListeners'', ''emit'', ''addListener'', ''on'', ''once'', ''removeListener'',
      ''removeAllListeners'', ''listeners'', ''domain'', ''_events'', ''_maxListeners'']"

definition baseMethods :: "string list" where
  "baseMethods = [''checkpoint'', ''hasChanged'', ''attr'', ''changed'', ''original'', ''validate'']"

definition methods :: "model \<Rightarrow> string list" where
  "methods m = EventEmitter_names @ baseMethods @ map fst (modelMethods m)"

definition in_methods :: "model \<Rightarrow> string \<Rightarrow> bool" where
  "in_methods m name \<longleftrightarrow> name \<in> set (methods m) \<or> inherited name"

text \<open>\<open>if (name === "id" && self.id) name = self.id\<close>\<close>

definition id_alias :: "model \<Rightarrow> string \<Rightarrow> string" where
  "id_alias m name =
     (if name = ''id'' \<and> truthy_str (id_attr m) then the (id_attr m) else name)"

datatype getres = TheModel | TheSelf | Val jsval

definition proxy_get :: "model \<Rightarrow> model_instance \<Rightarrow> string \<Rightarrow> getres" where
  "proxy_get m self name0 =
     (if name0 = ''__model__'' then TheModel
      else if name0 = ''__self__'' then TheSelf
      else let name = id_alias m name0 in
        if in_obj name (current self) then Val (getProp (current self) name)
        else if in_methods m name then Val (JFun name)
        else Val JUndefined)"

definition proxy_set :: "model \<Rightarrow> model_instance \<Rightarrow> string \<Rightarrow> jsval \<Rightarrow> bool \<times> model_instance" where
  "proxy_set m self name0 val =
     (let name = id_alias m name0 in
      if in_obj name (current self) then
        (let orig = (if \<not> hasOwnProperty (original self) name
                     then put name (getProp (current self) name) (original self)
                     else if strict_eq val (getProp (original self) name)
                       then AList.delete name (original self)
                     else original self);
             cur = put name val (current self)
         in (True, self\<lparr> current := cur, original := orig,
                          emitted := emitted self @
                            [(''change:all'', [JStr name, getProp orig name, val]),
                             (''change:'' @ name, [getProp orig name, val])] \<rparr>))
      else (True, self))"

text \<open>A sequence of attribute writes through the proxy.\<close>

definition assign :: "model \<Rightarrow> model_instance \<Rightarrow> string \<times> jsval \<Rightarrow> model_instance" where
  "assign m self w = snd (proxy_set m self (fst w) (snd w))"

definition assign_all :: "model \<Rightarrow> model_instance \<Rightarrow> (string \<times> jsval) list \<Rightarrow> model_instance" where
  "assign_all m self ws = foldl (assign m) self ws"


text \<open>
  A call \<open>obj.name()\<close> without arguments on the proxy. The get trap looks the name up,
  attributes first; what it finds is called. A value that is not a function gives a
  TypeError. In \<open>self.methods\<close> a model method replaces the base method of its name;
  the base methods are the functions above, called without an argument (\<open>hasChanged()\<close>
  then asks for the key \<open>"undefined"\<close>). Any other function object, held by an
  attribute, inherited or the emitter's, does what \<open>function_of\<close> says.
\<close>

definition call_base :: "model \<Rightarrow> string \<Rightarrow> model_instance \<Rightarrow> jserror + retval \<times> model_instance" where
  "call_base m name self =
     (if name = ''checkpoint'' then Inr (RVal JUndefined, checkpoint self)
      else if name = ''hasChanged'' then Inr (RVal (JBool (hasChanged self ''undefined'')), self)
      else if name = ''attr'' then Inr (RObj (attr_all self), self)
      else if name = ''changed'' then Inr (RObj (changed_all self), self)
      else if name = ''original'' then Inr (RObj (original_all self), self)
      else if name = ''validate''
        then (case validate m self of Inl e \<Rightarrow> Inl e | Inr _ \<Rightarrow> Inr (RVal JUndefined, self))
      else Inl (TypeError (name @ '' is not a base method'')))"

definition call0 :: "model \<Rightarrow> model_instance \<Rightarrow> string \<Rightarrow> jserror + retval \<times> model_instance" where
  "call0 m self name0 =
     (if name0 = ''__model__'' \<or> name0 = ''__self__''
      then Inl (TypeError ''object is not a function'')
      else let name = id_alias m name0 in
        if in_obj name (current self) then
          (case getProp (current self) name of
             JFun f \<Rightarrow> function_of m f self []
           | _ \<Rightarrow> Inl (TypeError (name @ '' is not a function'')))
        else if in_methods m name then
          (case map_of (modelMethods m) name of
             Some f \<Rightarrow> f self []
           | None \<Rightarrow> if name \<in> set baseMethods then call_base m name self
                     else function_of m name self [])
        else Inl (TypeError ''undefined is not a function''))"

text \<open>\<open>Object.keys(v)\<close> and the reads \<open>v[k]\<close> need an object: \<open>undefined\<close>,
  \<open>null\<close> and the primitives give a TypeError.\<close>

definition object_of :: "retval \<Rightarrow> jserror + obj" where
  "object_of r =
     (case r of
        RObj ob \<Rightarrow> Inr ob
      | RVal (JRef _) \<Rightarrow> Inr []
      | RVal (JFun _) \<Rightarrow> Inr []
      | RVal _ \<Rightarrow> Inl (TypeError ''Object.keys called on non-object''))"

datatype op = Write string jsval | Checkpoint

definition apply_op :: "model \<Rightarrow> model_instance \<Rightarrow> op \<Rightarrow> model_instance" where
  "apply_op m self x =
     (case x of Write name val \<Rightarrow> assign m self (name, val) | Checkpoint \<Rightarrow> checkpoint self)"

definition run_ops :: "model \<Rightarrow> model_instance \<Rightarrow> op list \<Rightarrow> model_instance" where
  "run_ops m self xs = foldl (apply_op m) self xs"

section \<open>dao.js\<close>

subsection \<open>Statements and the connection\<close>

text \<open>
  The statement a query builder renders: the table reference, the \<open>where\<close> text and
  the \<open>set\<close> pairs (column, placeholder) in the order of the calls. \<open>Insert\<close> and
  \<open>Update\<close> carry \<open>RETURNING *\<close>.
\<close>

datatype stmt =
    Raw string
  | Insert string "(string \<times> string) list"
  | Update string string "(string \<times> string) list"
  | Select string string

type_synonym row = obj

type_synonym call = "stmt \<times> jsval list"

text \<open>
  A connection answers a statement from the statements it has seen so far; \<open>issued\<close>
  records every statement sent to it.
\<close>

record conn =
  respond :: "call list \<Rightarrow> call \<Rightarrow> jserror + row list"
  issued :: "call list"

definition queryAsync :: "conn \<Rightarrow> stmt \<Rightarrow> jsval list \<Rightarrow> (jserror + row list) \<times> conn" where
  "queryAsync c q ps = (respond c (issued c) (q, ps), c\<lparr>issued := issued c @ [(q, ps)]\<rparr>)"

record dao =
  dao_model :: model
  dao_schema :: "string option"

record opts =
  opt_schema :: "string option"
  readOnly :: bool

definition tableRef :: "string option \<Rightarrow> string \<Rightarrow> string" where
  "tableRef schema tbl = (if truthy_str schema then the schema @ ''.'' @ tbl else tbl)"

text \<open>\<open>opts && opts.schema || self.schema\<close>\<close>

definition schema_for :: "dao \<Rightarrow> opts option \<Rightarrow> string option" where
  "schema_for d os =
     (case os of
        Some x \<Rightarrow> if truthy_str (opt_schema x) then opt_schema x else dao_schema d
      | None \<Rightarrow> dao_schema d)"

text \<open>Decimal text of a placeholder number, and \<open>model.id\<close> used in a string.\<close>

fun show_nat :: "nat \<Rightarrow> string" where
  "show_nat n =
     (if n < 10 then [''0123456789'' ! n]
      else show_nat (n div 10) @ [''0123456789'' ! (n mod 10)])"

definition id_text :: "model \<Rightarrow> string" where
  "id_text m = (case id_attr m of None \<Rightarrow> ''null'' | Some k \<Rightarrow> k)"

subsection \<open>Hooks\<close>

fun run_hook_list :: "hook list \<Rightarrow> model_instance \<Rightarrow> jserror + model_instance" where
  "run_hook_list [] self = Inr self"
| "run_hook_list (h # hs) self =
     (case h self of Inl e \<Rightarrow> Inl e | Inr self' \<Rightarrow> run_hook_list hs self')"

definition run_hooks :: "hook list option \<Rightarrow> model_instance \<Rightarrow> jserror + model_instance" where
  "run_hooks hs self = (case hs of None \<Rightarrow> Inr self | Some l \<Rightarrow> run_hook_list l self)"

subsection \<open>save and update\<close>

text \<open>\<open>model.attrs[attrName].column || attrName\<close>; \<open>model.attrs\<close> is a plain object,
  so an inherited name yields a function without a \<open>column\<close>, and any other unknown
  name a TypeError.\<close>

definition columnName :: "model \<Rightarrow> string \<Rightarrow> jserror + string" where
  "columnName m attrName =
     (case map_of (attrs m) attrName of
        Some a \<Rightarrow> Inr (if truthy_str (column a) then the (column a) else attrName)
      | None \<Rightarrow> if inherited attrName then Inr attrName
                else Inl (TypeError ''Cannot read property column of undefined''))"

text \<open>The loop of \<open>save\<close> over \<open>attrNames\<close>: \<open>p\<close> is the placeholder counter,
  \<open>sets\<close> the calls of \<open>q.set\<close> so far, \<open>vals\<close> is \<open>attrValues\<close>.\<close>

fun insert_loop ::
  "model \<Rightarrow> obj \<Rightarrow> string list \<Rightarrow> nat \<Rightarrow> (string \<times> string) list \<Rightarrow> jsval list
    \<Rightarrow> jserror + (string \<times> string) list \<times> jsval list" where
  "insert_loop m as [] p sets vals = Inr (sets, vals)"
| "insert_loop m as (attrName # rest) p sets vals =
     (case columnName m attrName of
        Inl e \<Rightarrow> Inl e
      | Inr col \<Rightarrow>
          (let attrValue = getProp as attrName in
           if Some attrName = id_attr m \<and> (attrValue = JUndefined \<or> attrValue = JNull)
           then insert_loop m as rest p sets vals
           else insert_loop m as rest (p + 1) (sets @ [(col, ''$'' @ show_nat (p + 1))])
                  (vals @ [attrValue])))"

text \<open>The loop of \<open>update\<close>.\<close>

fun update_loop ::
  "model \<Rightarrow> obj \<Rightarrow> string list \<Rightarrow> nat \<Rightarrow> (string \<times> string) list \<Rightarrow> jsval list
    \<Rightarrow> jserror + (string \<times> string) list \<times> jsval list" where
  "update_loop m as [] p sets vals = Inr (sets, vals)"
| "update_loop m as (attrName # rest) p sets vals =
     (case columnName m attrName of
        Inl e \<Rightarrow> Inl e
      | Inr col \<Rightarrow>
          update_loop m as rest (p + 1) (sets @ [(col, ''$'' @ show_nat (p + 1))])
            (vals @ [getProp as attrName]))"

text \<open>\<open>if (res.rows[0]) { for each key of the row: obj[key] = row[key] }\<close>\<close>

definition merge_row :: "model \<Rightarrow> model_instance \<Rightarrow> row \<Rightarrow> model_instance" where
  "merge_row m obj r = foldl (\<lambda>ob k. snd (proxy_set m ob k (getProp r k))) obj (map fst r)"

definition merge_rows :: "model \<Rightarrow> model_instance \<Rightarrow> row list \<Rightarrow> model_instance" where
  "merge_rows m obj rows = (case rows of [] \<Rightarrow> obj | r # _ \<Rightarrow> merge_row m obj r)"

text \<open>\<open>obj.id\<close>, read through the proxy.\<close>

definition obj_id :: "model \<Rightarrow> model_instance \<Rightarrow> jsval" where
  "obj_id m obj = (case proxy_get m obj ''id'' of Val v \<Rightarrow> v | _ \<Rightarrow> JUndefined)"

text \<open>
  \<open>save(conn, obj, opts)\<close> and \<open>update(conn, obj, opts)\<close>; \<open>m\<close> is
  \<open>obj.__model__\<close>. The methods of \<open>obj\<close> are called through the proxy. A failure
  leaves the connection as it was when it was raised.
\<close>

definition save ::
  "dao \<Rightarrow> conn \<Rightarrow> model \<Rightarrow> model_instance \<Rightarrow> opts option
    \<Rightarrow> (jserror + model_instance) \<times> conn" where
  "save d c m obj os =
     (case run_hooks (preCreate (hooks m)) obj of
        Inl e \<Rightarrow> (Inl e, c)
      | Inr obj1 \<Rightarrow>
     (case call0 m obj1 ''validate'' of
        Inl e \<Rightarrow> (Inl e, c)
      | Inr (_, obj2) \<Rightarrow>
     (case call0 m obj2 ''attr'' of
        Inl e \<Rightarrow> (Inl e, c)
      | Inr (r, obj3) \<Rightarrow>
     (case object_of r of
        Inl e \<Rightarrow> (Inl e, c)
      | Inr as \<Rightarrow>
     (case insert_loop m as (map fst as) 0 [] [] of
        Inl e \<Rightarrow> (Inl e, c)
      | Inr (sets, attrValues) \<Rightarrow>
     (case queryAsync c (Insert (tableRef (schema_for d os) (table m)) sets) attrValues of
        (Inl e, c') \<Rightarrow> (Inl e, c')
      | (Inr rows, c') \<Rightarrow>
     (case call0 m (merge_rows m obj3 rows) ''checkpoint'' of
        Inl e \<Rightarrow> (Inl e, c')
      | Inr (_, obj4) \<Rightarrow>
     (case run_hooks (postCreate (hooks m)) obj4 of
        Inl e \<Rightarrow> (Inl e, c')
      | Inr obj5 \<Rightarrow> (Inr obj5, c')))))))))"

text \<open>The statement of \<open>update\<close>, sent when \<open>attrNames\<close> is not empty.\<close>

definition update_statement ::
  "dao \<Rightarrow> conn \<Rightarrow> model \<Rightarrow> model_instance \<Rightarrow> opts option \<Rightarrow> obj
    \<Rightarrow> (jserror + model_instance) \<times> conn" where
  "update_statement d c m obj os as =
     (case update_loop m as (map fst as) 1 [] [obj_id m obj] of
        Inl e \<Rightarrow> (Inl e, c)
      | Inr (sets, vals) \<Rightarrow>
     (case queryAsync c
             (Update (tableRef (schema_for d os) (table m)) (id_text m @ '' = $1'') sets) vals of
        (Inl e, c') \<Rightarrow> (Inl e, c')
      | (Inr rows, c') \<Rightarrow> (Inr (merge_rows m obj rows), c')))"

definition update ::
  "dao \<Rightarrow> conn \<Rightarrow> model \<Rightarrow> model_instance \<Rightarrow> opts option
    \<Rightarrow> (jserror + model_instance) \<times> conn" where
  "update d c m obj os =
     (case run_hooks (preUpdate (hooks m)) obj of
        Inl e \<Rightarrow> (Inl e, c)
      | Inr obj1 \<Rightarrow>
     (case call0 m obj1 ''validate'' of
        Inl e \<Rightarrow> (Inl e, c)
      | Inr (_, obj2) \<Rightarrow>
     (case call0 m obj2 ''changed'' of
        Inl e \<Rightarrow> (Inl e, c)
      | Inr (r, obj3) \<Rightarrow>
     (case object_of r of
        Inl e \<Rightarrow> (Inl e, c)
      | Inr as \<Rightarrow>
     (case (if length (map fst as) > 0 then update_statement d c m obj3 os as
            else (Inr obj3, c)) of
        (Inl e, c') \<Rightarrow> (Inl e, c')
      | (Inr obj4, c') \<Rightarrow>
     (case call0 m obj4 ''checkpoint'' of
        Inl e \<Rightarrow> (Inl e, c')
      | Inr (_, obj5) \<Rightarrow>
     (case run_hooks (postUpdate (hooks m)) obj5 of
        Inl e \<Rightarrow> (Inl e, c')
      | Inr obj6 \<Rightarrow> (Inr obj6, c'))))))))"

subsection \<open>get\<close>

text \<open>The result is \<open>Some\<close> instance, or \<open>None\<close> for \<open>null\<close>.\<close>

definition get ::
  "dao \<Rightarrow> conn \<Rightarrow> jsval \<Rightarrow> opts option \<Rightarrow> (jserror + model_instance option) \<times> conn" where
  "get d c ident os =
     (let m = dao_model d in
      case queryAsync c
             (Select (tableRef (schema_for d os) (table m)) (id_text m @ '' = $1'')) [ident] of
        (Inl e, c') \<Rightarrow> (Inl e, c')
      | (Inr rows, c') \<Rightarrow>
          if length rows = 1 then (Inr (Some (modelConstructor m (Some (rows ! 0)))), c')
          else (Inr None, c'))"

subsection \<open>query\<close>

text \<open>
  The closure state of one \<open>query\<close> call: the two mode flags, the accumulator
  \<open>res\<close> (\<open>null\<close>, one instance, or an array), the deferred's promise and the
  progress notifications sent. A deferred settles once: later calls of \<open>resolve\<close> and
  \<open>reject\<close> have no effect.
\<close>

datatype acc = ANull | AOne model_instance | AMany "model_instance list"

datatype settled = Pending | Resolved "acc option" | Rejected jserror

record query_state =
  uniqueResult :: bool
  collectResults :: bool
  res :: acc
  promise :: settled
  progress :: "model_instance list"

datatype query_event =
    RowEv row
  | EndEv
  | ErrorEv jserror
  | CallUniqueResult
  | CallCollectResults

definition settle :: "settled \<Rightarrow> settled \<Rightarrow> settled" where
  "settle p new = (case p of Pending \<Rightarrow> new | _ \<Rightarrow> p)"

definition query_init :: query_state where
  "query_init =
     \<lparr> uniqueResult = False, collectResults = False, res = ANull, promise = Pending,
       progress = [] \<rparr>"

text \<open>The handlers. \<open>Inl\<close> is an exception that escapes the handler
  (\<open>res.push\<close> on something that is not an array).\<close>

definition on_row :: "model \<Rightarrow> query_state \<Rightarrow> row \<Rightarrow> jserror + query_state" where
  "on_row m s r =
     (let mi = modelConstructor m (Some r) in
      if uniqueResult s then
        (if res s = ANull then Inr (s\<lparr>res := AOne mi, progress := progress s @ [mi]\<rparr>)
         else Inr (s\<lparr>promise := settle (promise s) (Rejected (Error ''multiple results''))\<rparr>))
      else if collectResults s then
        (case res s of
           AMany xs \<Rightarrow> Inr (s\<lparr>res := AMany (xs @ [mi]), progress := progress s @ [mi]\<rparr>)
         | _ \<Rightarrow> Inl (TypeError ''res.push is not a function''))
      else Inr (s\<lparr>progress := progress s @ [mi]\<rparr>))"

definition on_end :: "query_state \<Rightarrow> query_state" where
  "on_end s =
     (if uniqueResult s \<or> collectResults s
      then s\<lparr>promise := settle (promise s) (Resolved (Some (res s)))\<rparr>
      else s\<lparr>promise := settle (promise s) (Resolved None)\<rparr>)"

definition query_step :: "model \<Rightarrow> query_state \<Rightarrow> query_event \<Rightarrow> jserror + query_state" where
  "query_step m s ev =
     (case ev of
        RowEv r \<Rightarrow> on_row m s r
      | EndEv \<Rightarrow> Inr (on_end s)
      | ErrorEv err \<Rightarrow> Inr (s\<lparr>promise := settle (promise s) (Rejected err)\<rparr>)
      | CallUniqueResult \<Rightarrow> Inr (s\<lparr>uniqueResult := True\<rparr>)
      | CallCollectResults \<Rightarrow> Inr (s\<lparr>collectResults := True, res := AMany []\<rparr>))"

fun query_run :: "model \<Rightarrow> query_state \<Rightarrow> query_event list \<Rightarrow> jserror + query_state" where
  "query_run m s [] = Inr s"
| "query_run m s (ev # evs) =
     (case query_step m s ev of Inl e \<Rightarrow> Inl e | Inr s' \<Rightarrow> query_run m s' evs)"

text \<open>\<open>query(conn, q, ...params)\<close> sends the statement and returns the handle in its
  initial state; the events of the stream and the caller's mode calls follow.\<close>

definition query :: "dao \<Rightarrow> conn \<Rightarrow> stmt \<Rightarrow> jsval list \<Rightarrow> query_state \<times> conn" where
  "query d c q ps = (query_init, c\<lparr>issued := issued c @ [(q, ps)]\<rparr>)"

subsection \<open>inTransaction\<close>

text \<open>
  A unit of work, as far as the connection sees it: it ends with a result or a failure,
  or sends a statement and continues with the answer.
\<close>

datatype 'a work =
    Done "jserror + 'a"
  | Query stmt "jsval list" "(jserror + row list) \<Rightarrow> 'a work"

primrec run_work :: "'a work \<Rightarrow> conn \<Rightarrow> (jserror + 'a) \<times> conn" where
  "run_work (Done r) c = (r, c)"
| "run_work (Query q ps k) c =
     (case queryAsync c q ps of (r, c') \<Rightarrow> run_work (k r) c')"

text \<open>The \<open>catch\<close> block: \<open>ROLLBACK\<close>, then \<open>throw ex\<close>.\<close>

definition catch_rollback :: "conn \<Rightarrow> jserror \<Rightarrow> (jserror + 'a) \<times> conn" where
  "catch_rollback c ex =
     (case queryAsync c (Raw ''ROLLBACK;'') [] of
        (Inl ex2, c') \<Rightarrow> (Inl ex2, c')
      | (Inr _, c') \<Rightarrow> (Inl ex, c'))"

definition inTransaction :: "conn \<Rightarrow> 'a work \<Rightarrow> opts option \<Rightarrow> (jserror + 'a) \<times> conn" where
  "inTransaction c fn os =
     (case queryAsync c (Raw ''BEGIN;'') [] of
        (Inl ex, c1) \<Rightarrow> catch_rollback c1 ex
      | (Inr _, c1) \<Rightarrow>
     (case run_work fn c1 of
        (Inl ex, c2) \<Rightarrow> catch_rollback c2 ex
      | (Inr r, c2) \<Rightarrow>
     (case queryAsync c2
             (Raw (if (case os of Some x \<Rightarrow> readOnly x | None \<Rightarrow> False)
                   then ''ROLLBACK;'' else ''COMMIT;'')) [] of
        (Inl ex, c3) \<Rightarrow> catch_rollback c3 ex
      | (Inr _, c3) \<Rightarrow> (Inr r, c3))))"

section \<open>Definitions used to state the properties\<close>

text \<open>The checkpoint baseline \<open>base\<close> is tracked by an instance: a key of \<open>original\<close>
  holds the baseline value, is its own alias and is in \<open>current\<close>; any other attribute
  still has its baseline value; \<open>__proto__\<close> is never a key of \<open>original\<close>.\<close>

definition tracks :: "model \<Rightarrow> obj \<Rightarrow> model_instance \<Rightarrow> bool" where
  "tracks m base self \<longleftrightarrow>
     (\<forall>k. hasOwnProperty (original self) k \<longrightarrow>
            getProp (original self) k = getProp base k \<and> id_alias m k = k
            \<and> in_obj k (current self))
     \<and> (\<forall>k. \<not> hasOwnProperty (original self) k \<longrightarrow> getProp (current self) k = getProp base k)
     \<and> \<not> hasOwnProperty (original self) ''__proto__''"

text \<open>The stream of a query is still open: the event is neither its end nor an error.\<close>

definition streaming :: "query_event \<Rightarrow> bool" where
  "streaming ev = (case ev of EndEv \<Rightarrow> False | ErrorEv _ \<Rightarrow> False | _ \<Rightarrow> True)"

text \<open>A handle whose stream is still open: the promise is not resolved; unless
  \<open>uniqueResult()\<close> was called it is pending, and the accumulator is a list exactly if
  \<open>collectResults()\<close> was called.\<close>

definition open_handle :: "query_state \<Rightarrow> bool" where
  "open_handle s \<longleftrightarrow>
     (\<forall>v. promise s \<noteq> Resolved v)
     \<and> (\<not> uniqueResult s \<longrightarrow>
          promise s = Pending
          \<and> (if collectResults s then (\<exists>xs. res s = AMany xs) else res s = ANull))"

text \<open>Validation, as the specification words it: each validator of each attribute is
  run on the attribute's current value, and every failure is reported, in order.\<close>

definition is_validator :: "validation \<Rightarrow> bool" where
  "is_validator v = (case v of VOther _ \<Rightarrow> False | _ \<Rightarrow> True)"

definition run_validation :: "validation \<Rightarrow> jsval \<Rightarrow> bool \<times> jsval" where
  "run_validation v x =
     (case v of
        VFun fn \<Rightarrow> fn [x]
      | VArr fn extra \<Rightarrow> fn ([x] @ extra)
      | VOther _ \<Rightarrow> (True, JUndefined))"

definition failures_of :: "obj \<Rightarrow> string \<Rightarrow> validation list \<Rightarrow> (string \<times> jsval) list" where
  "failures_of cur p vs =
     map (\<lambda>v. (p, snd (run_validation v (getProp cur p))))
       (filter (\<lambda>v. \<not> fst (run_validation v (getProp cur p))) vs)"

definition failures :: "model \<Rightarrow> model_instance \<Rightarrow> (string \<times> jsval) list" where
  "failures m self =
     concat (map (\<lambda>pv. failures_of (current self) (fst pv) (snd pv)) (validations m))"

definition failing_count :: "model \<Rightarrow> model_instance \<Rightarrow> nat" where
  "failing_count m self =
     sum_list
       (map (\<lambda>pv. length (filter (\<lambda>v. \<not> fst (run_validation v (getProp (current self) (fst pv))))
                            (snd pv)))
          (validations m))"




text \<open>The statement that ends a transaction whose unit of work succeeded.\<close>

definition end_statement :: "opts option \<Rightarrow> string" where
  "end_statement os =
     (if (case os of Some x \<Rightarrow> readOnly x | None \<Rightarrow> False) then ''ROLLBACK;'' else ''COMMIT;'')"

section \<open>Example schemas and connections\<close>

definition plain_attr :: attr_desc where
  "plain_attr =
     \<lparr> column = None, is_id = False, dflt = NoDefault, defaultOfType = False, type_new = JNull \<rparr>"

definition no_hooks :: hooks_rec where
  "no_hooks = \<lparr> preCreate = None, postCreate = None, preUpdate = None, postUpdate = None \<rparr>"

text \<open>No function object is callable.\<close>

definition no_functions :: "string \<Rightarrow> fn" where
  "no_functions f self args = Inl (TypeError (f @ '' is not defined''))"

definition no_opts :: model_opts where
  "no_opts =
     \<lparr> o_methods = [], o_functions = no_functions, o_validations = [], o_initializer = None,
       o_hooks = no_hooks, o_table = ''test_types'' \<rparr>"

text \<open>The schemas of the test suite: \<open>TestA\<close>, \<open>TestA\<close> with \<open>name\<close> as identity,
  and \<open>TestType\<close>; then one with a column alias, one with validations, one with hooks.\<close>

definition TestA :: model where
  "TestA = Model [(''name'', plain_attr),
                  (''description'', plain_attr\<lparr>dflt := DefaultValue (JStr '''')\<rparr>)] no_opts"

definition TestNameId :: model where
  "TestNameId = Model [(''name'', plain_attr\<lparr>is_id := True\<rparr>),
                       (''description'', plain_attr\<lparr>dflt := DefaultValue (JStr '''')\<rparr>)] no_opts"

definition TestType :: model where
  "TestType = Model [(''id'', plain_attr\<lparr>is_id := True\<rparr>), (''name'', plain_attr),
                     (''description'', plain_attr\<lparr>dflt := DefaultValue (JStr '''')\<rparr>)] no_opts"

definition TestAliased :: model where
  "TestAliased = Model [(''id'', plain_attr\<lparr>is_id := True\<rparr>),
                        (''name'', plain_attr\<lparr>column := Some ''full_name''\<rparr>)] no_opts"

definition Validated :: model where
  "Validated =
     Model [(''name'', plain_attr),
            (''description'', plain_attr\<lparr>dflt := DefaultValue (JStr '''')\<rparr>),
            (''rating'', plain_attr)]
       (no_opts\<lparr>o_validations := [(''name'', [VFun isNotNull, VFun isString]),
                                     (''description'', [VFun isString]),
                                     (''rating'', [VFun isNumber])]\<rparr>)"

definition TestRated :: model where
  "TestRated = Model [(''name'', plain_attr), (''rating'', plain_attr)] no_opts"

definition mark :: "string \<Rightarrow> hook" where
  "mark tag self = Inr (self\<lparr>emitted := emitted self @ [(tag, [])]\<rparr>)"

definition Hooked :: model where
  "Hooked =
     Model [(''id'', plain_attr\<lparr>is_id := True\<rparr>), (''name'', plain_attr)]
       (no_opts\<lparr>o_hooks := no_hooks\<lparr>preUpdate := Some [mark ''pre1'', mark ''pre2''],
                                        postUpdate := Some [mark ''post1'', mark ''post2'']\<rparr>\<rparr>)"

text \<open>\<open>Hooked\<close> with a validation of \<open>name\<close>.\<close>

definition HookedStrict :: model where
  "HookedStrict =
     Model [(''id'', plain_attr\<lparr>is_id := True\<rparr>), (''name'', plain_attr)]
       (no_opts\<lparr>o_validations := [(''name'', [VFun isNotNull])],
                 o_hooks := no_hooks\<lparr>preUpdate := Some [mark ''pre1'', mark ''pre2''],
                                        postUpdate := Some [mark ''post1'', mark ''post2'']\<rparr>\<rparr>)"

text \<open>\<open>Hooked\<close> with a model method \<open>checkpoint\<close> in the place of the base method: it
  empties \<open>original\<close> and leaves a mark.\<close>

definition marking_checkpoint :: fn where
  "marking_checkpoint self args =
     Inr (RVal JUndefined, self\<lparr>original := [], emitted := emitted self @ [(''checkpoint'', [])]\<rparr>)"

definition Audited :: model where
  "Audited =
     Model [(''id'', plain_attr\<lparr>is_id := True\<rparr>), (''name'', plain_attr)]
       (no_opts\<lparr>o_methods := [(''checkpoint'', marking_checkpoint)],
                 o_hooks := no_hooks\<lparr>preUpdate := Some [mark ''pre1'', mark ''pre2''],
                                        postUpdate := Some [mark ''post1'', mark ''post2'']\<rparr>\<rparr>)"

definition answering :: "row list \<Rightarrow> conn" where
  "answering rows = \<lparr> respond = (\<lambda>h q. Inr rows), issued = [] \<rparr>"

definition failing_rollback :: conn where
  "failing_rollback =
     \<lparr> respond = (\<lambda>h q. if fst q = Raw ''ROLLBACK;'' then Inl (Error ''connection lost'')
                        else Inr []),
       issued = [] \<rparr>"

definition the_dao :: "model \<Rightarrow> dao" where
  "the_dao m = \<lparr> dao_model = m, dao_schema = None \<rparr>"

text \<open>A unit of work that inserts a row and then fails.\<close>

definition insert_then_fail :: "unit work" where
  "insert_then_fail =
     Query (Insert ''test_types'' [(''name'', ''$1'')]) [JStr ''test thingy'']
       (\<lambda>r. Done (Inl (Error ''boom'')))"

section \<open>Objects\<close>

lemma hasOwn_map_of: "hasOwnProperty ob k \<longleftrightarrow> map_of ob k \<noteq> None"
  by (simp add: hasOwnProperty_def map_of_eq_None_iff)

lemma hasOwn_put:
  "hasOwnProperty (put k v ob) k' \<longleftrightarrow> (k' = k \<and> k \<noteq> ''__proto__'') \<or> hasOwnProperty ob k'"
  by (simp add: put_def hasOwn_map_of update_conv')

lemma hasOwn_delete:
  "hasOwnProperty (AList.delete k ob) k' \<longleftrightarrow> k' \<noteq> k \<and> hasOwnProperty ob k'"
  by (simp add: hasOwn_map_of delete_conv')

lemma getProp_put:
  "getProp (put k v ob) k' = (if k' = k \<and> k \<noteq> ''__proto__'' then v else getProp ob k')"
  by (simp add: put_def getProp_def update_conv')

lemma getProp_delete: "k' \<noteq> k \<Longrightarrow> getProp (AList.delete k ob) k' = getProp ob k'"
  by (simp add: getProp_def delete_conv')



lemma distinct_put: "distinct (map fst ob) \<Longrightarrow> distinct (map fst (put k v ob))"
  by (simp add: put_def distinct_update)


section \<open>Change tracking\<close>

lemma id_alias_idem: "id_alias m (id_alias m x) = id_alias m x"
  by (simp add: id_alias_def)

lemma tracks_start: "original self = [] \<Longrightarrow> tracks m (current self) self"
  by (simp add: tracks_def hasOwnProperty_def)

lemma tracks_assign: "tracks m base self \<Longrightarrow> tracks m base (assign m self w)"
  unfolding tracks_def assign_def proxy_set_def Let_def
  by (auto simp: hasOwn_put hasOwn_delete getProp_put getProp_delete id_alias_idem
        in_obj_def strict_eq_def)

lemma tracks_assign_all: "tracks m base self \<Longrightarrow> tracks m base (assign_all m self ws)"
  unfolding assign_all_def
  by (induction ws arbitrary: self) (simp_all add: tracks_assign)


text \<open>A write of a primitive to \<open>__proto__\<close> creates no key.\<close>

lemma proto_write_keeps_keys:
  assumes "\<not> hasOwnProperty (original self) ''__proto__''"
  shows "current (assign m self (''__proto__'', v)) = current self
       \<and> original (assign m self (''__proto__'', v)) = original self"
  using assms by (simp add: assign_def proxy_set_def id_alias_def put_def Let_def)

text \<open>One half of the tracking property holds for every sequence of writes after a
  checkpoint: an attribute whose value differs from the checkpoint's is reported changed.\<close>

lemma differs_hasChanged:
  assumes "original start = []"
    and "getProp (current (assign_all m start ws)) name \<noteq> getProp (current start) name"
  shows "hasChanged (assign_all m start ws) name"
proof -
  have "tracks m (current start) (assign_all m start ws)"
    using assms(1) tracks_assign_all tracks_start by blast
  with assms(2) show ?thesis
    by (auto simp: tracks_def hasChanged_def)
qed

lemmas fixture_defs =
  plain_attr_def no_hooks_def no_functions_def no_opts_def TestA_def TestNameId_def TestType_def
  TestAliased_def Validated_def TestRated_def mark_def Hooked_def HookedStrict_def
  marking_checkpoint_def Audited_def answering_def failing_rollback_def the_dao_def
  insert_then_fail_def Model_def with_column_def

lemmas model_defs =
  modelConstructor_def ModelInstance_def initial_value_def truthy_str_def hasOwnProperty_def
  getProp_def put_def strict_eq_def in_obj_def inherited_def Object_prototype_def assign_def
  assign_all_def proxy_set_def proxy_get_def id_alias_def hasChanged_def checkpoint_def
  in_methods_def methods_def EventEmitter_names_def baseMethods_def apply_op_def run_ops_def
  Let_def

text \<open>
  C1. The claim: after any sequence of attribute writes, \<open>hasChanged(n)\<close> is true if and
  only if the current value of \<open>n\<close> differs from the value at the last checkpoint; in
  particular a write of the checkpointed value leaves \<open>hasChanged(n)\<close> false.
  The code does not do this. On \<open>TestA\<close>, built with \<open>name = "foo"\<close> (nothing changed
  yet), the single write \<open>t.name = "foo"\<close> leaves the value as it was at the checkpoint,
  yet \<open>hasChanged("name")\<close> is true: the first write to a clean attribute records the
  baseline without comparing the new value with it.
\<close>

theorem same_value_write_marks_changed:
  "original (modelConstructor TestA (Some [(''name'', JStr ''foo'')])) = []
   \<and> hasChanged (assign TestA (modelConstructor TestA (Some [(''name'', JStr ''foo'')]))
                   (''name'', JStr ''foo'')) ''name''
   \<and> getProp (current (assign TestA (modelConstructor TestA (Some [(''name'', JStr ''foo'')]))
                   (''name'', JStr ''foo''))) ''name''
       = getProp (current (modelConstructor TestA (Some [(''name'', JStr ''foo'')]))) ''name''"
  by (simp add: fixture_defs model_defs)









section \<open>Undeclared names\<close>












section \<open>Validation\<close>

lemma validate_entries_eq:
  "list_all is_validator vs \<Longrightarrow>
     validate_entries cur p vs failed = Inr (failed @ failures_of cur p vs)"
proof (induction vs arbitrary: failed)
  case Nil
  then show ?case by (simp add: failures_of_def)
next
  case (Cons v vs)
  then show ?case
    by (cases v) (simp_all add: failures_of_def run_validation_def is_validator_def Let_def)
qed

lemma validate_props_eq:
  "list_all (\<lambda>pv. list_all is_validator (snd pv)) pvs \<Longrightarrow>
     validate_props cur pvs failed
       = Inr (failed @ concat (map (\<lambda>pv. failures_of cur (fst pv) (snd pv)) pvs))"
proof (induction pvs arbitrary: failed)
  case Nil
  then show ?case by simp
next
  case (Cons pv pvs)
  obtain p vs where pv: "pv = (p, vs)" by (cases pv)
  with Cons show ?case by (simp add: validate_entries_eq)
qed

lemma length_failures: "length (failures m self) = failing_count m self"
  by (simp add: failures_def failing_count_def length_concat failures_of_def comp_def)

text \<open>
  C6. When every entry of the validation lists is a validator (a function, or an array
  headed by one), \<open>validate()\<close> runs each validator of each attribute. With \<open>N > 0\<close>
  failing validators it raises one \<open>ValidationError\<close> whose list holds exactly the \<open>N\<close>
  (attribute, message) pairs, in the order of the attributes and of their validators; with
  no failure it raises nothing.
\<close>

theorem validate_collects_all:
  assumes "list_all (\<lambda>pv. list_all is_validator (snd pv)) (validations m)"
  shows "validate m self =
           (if failing_count m self > 0 then Inl (ValidationError (failures m self)) else Inr ())
         \<and> length (failures m self) = failing_count m self"
  using validate_props_eq [OF assms, of "current self" "[]"] length_failures [of m self]
  by (simp add: validate_def failures_def)

lemma Validated_entries:
  "list_all (\<lambda>pv. list_all is_validator (snd pv)) (validations Validated)"
  by code_simp

lemma Validated_count:
  "failing_count Validated
     (modelConstructor Validated (Some [(''name'', JNum 55), (''rating'', JStr ''high'')])) = 2"
  by code_simp

lemma Validated_failures:
  "failures Validated
     (modelConstructor Validated (Some [(''name'', JNum 55), (''rating'', JStr ''high'')]))
   = [(''name'', JStr ''expected string''), (''rating'', JStr ''expected number'')]"
  by code_simp

text \<open>After the test "throws on validation error for multiple validation failures":
  \<open>name\<close> passes \<open>isNotNull\<close> and fails \<open>isString\<close>, \<open>rating\<close> fails too.\<close>

theorem validate_collects_all_witness:
  "list_all (\<lambda>pv. list_all is_validator (snd pv)) (validations Validated)
   \<and> validate Validated
        (modelConstructor Validated (Some [(''name'', JNum 55), (''rating'', JStr ''high'')]))
      = Inl (ValidationError
               [(''name'', JStr ''expected string''), (''rating'', JStr ''expected number'')])"
  using validate_collects_all [OF Validated_entries,
      of "modelConstructor Validated (Some [(''name'', JNum 55), (''rating'', JStr ''high'')])"]
    Validated_entries Validated_count Validated_failures
  by simp

section \<open>Streaming query\<close>

lemma query_run_append:
  "query_run m s (xs @ ys) =
     (case query_run m s xs of Inl e \<Rightarrow> Inl e | Inr s' \<Rightarrow> query_run m s' ys)"
  by (induction xs arbitrary: s) (auto split: sum.splits)

lemma rows_collected:
  "\<not> uniqueResult s \<Longrightarrow> collectResults s \<Longrightarrow> res s = AMany xs \<Longrightarrow>
     query_run m s (map RowEv rs)
       = Inr (s\<lparr>res := AMany (xs @ map (\<lambda>r. modelConstructor m (Some r)) rs),
                progress := progress s @ map (\<lambda>r. modelConstructor m (Some r)) rs\<rparr>)"
  by (induction rs arbitrary: s xs) (simp_all add: query_step_def on_row_def Let_def)

text \<open>In the mode of \<open>uniqueResult()\<close> with an accumulator that is not \<open>null\<close>,
  every row rejects.\<close>

lemma settle_twice: "settle (settle p x) x = settle p x"
  by (cases p; cases x) (simp_all add: settle_def)

lemma rows_unique:
  "uniqueResult s \<Longrightarrow> res s \<noteq> ANull \<Longrightarrow>
     query_run m s (map RowEv rs)
       = Inr (s\<lparr>promise := (if rs = [] then promise s
                             else settle (promise s) (Rejected (Error ''multiple results'')))\<rparr>)"
proof (induction rs arbitrary: s)
  case Nil
  then show ?case by simp
next
  case (Cons r rs)
  then show ?case
    by (cases rs) (simp_all add: query_step_def on_row_def Let_def settle_twice)
qed

lemma open_init: "open_handle query_init"
  by (simp add: open_handle_def query_init_def)

lemma open_step:
  assumes "open_handle s" and "streaming ev"
  shows "case query_step m s ev of
           Inl e \<Rightarrow> False
         | Inr s' \<Rightarrow> open_handle s'
                     \<and> (uniqueResult s' \<longrightarrow> uniqueResult s \<or> ev = CallUniqueResult)"
proof (cases ev)
  case (RowEv r)
  show ?thesis
  proof (cases "uniqueResult s")
    case True
    with assms(1) RowEv show ?thesis
      by (cases "promise s") (simp_all add: query_step_def on_row_def Let_def open_handle_def settle_def)
  next
    case False
    note nu = this
    show ?thesis
    proof (cases "collectResults s")
      case True
      with nu assms(1) obtain xs where "res s = AMany xs" "promise s = Pending"
        by (auto simp: open_handle_def)
      with nu True RowEv show ?thesis
        by (simp add: query_step_def on_row_def Let_def open_handle_def)
    next
      case False
      with nu assms(1) have "res s = ANull" "promise s = Pending"
        by (auto simp: open_handle_def)
      with nu False RowEv show ?thesis
        by (simp add: query_step_def on_row_def Let_def open_handle_def)
    qed
  qed
next
  case EndEv
  with assms(2) show ?thesis by (simp add: streaming_def)
next
  case (ErrorEv err)
  with assms(2) show ?thesis by (simp add: streaming_def)
next
  case CallUniqueResult
  with assms(1) show ?thesis by (simp add: query_step_def open_handle_def)
next
  case CallCollectResults
  with assms(1) show ?thesis by (simp add: query_step_def open_handle_def)
qed

lemma open_run:
  assumes "open_handle s" and "list_all streaming evs"
  shows "\<exists>s'. query_run m s evs = Inr s' \<and> open_handle s'
              \<and> (uniqueResult s' \<longrightarrow> uniqueResult s \<or> CallUniqueResult \<in> set evs)"
  using assms
proof (induction evs arbitrary: s)
  case Nil
  then show ?case by simp
next
  case (Cons ev evs)
  from Cons.prems obtain s1 where
    s1: "query_step m s ev = Inr s1" "open_handle s1"
        "uniqueResult s1 \<longrightarrow> uniqueResult s \<or> ev = CallUniqueResult"
    using open_step [of s ev m] by (cases "query_step m s ev") simp_all
  from Cons.prems(2) have "list_all streaming evs" by simp
  from Cons.IH [OF s1(2) this] obtain s' where
    s': "query_run m s1 evs = Inr s'" "open_handle s'"
        "uniqueResult s' \<longrightarrow> uniqueResult s1 \<or> CallUniqueResult \<in> set evs"
    by blast
  have "query_run m s (ev # evs) = Inr s'"
    using s1(1) s'(1) by simp
  moreover have "uniqueResult s' \<longrightarrow> uniqueResult s \<or> CallUniqueResult \<in> set (ev # evs)"
    using s1(3) s'(3) by auto
  ultimately show ?case
    using s'(2) by blast
qed

text \<open>From any open handle: \<open>collectResults()\<close>, then rows, then the end.\<close>

lemma collect_then_rows:
  assumes "open_handle s"
  shows "\<exists>s'. query_run m s ([CallCollectResults] @ map RowEv rs @ [EndEv]) = Inr s'
           \<and> (\<forall>v. promise s' = Resolved v \<longrightarrow>
                  v = Some (AMany (map (\<lambda>r. modelConstructor m (Some r)) rs)))
           \<and> (\<not> uniqueResult s \<longrightarrow>
                  promise s' = Resolved (Some (AMany (map (\<lambda>r. modelConstructor m (Some r)) rs))))"
proof (cases "uniqueResult s")
  case False
  with assms have "promise s = Pending"
    by (simp add: open_handle_def)
  with False show ?thesis
    by (simp add: query_run_append rows_collected query_step_def on_end_def settle_def)
next
  case True
  from assms have nr: "\<forall>v. promise s \<noteq> Resolved v"
    by (simp add: open_handle_def)
  show ?thesis
  proof (cases "promise s")
    case Pending
    with True show ?thesis
      by (simp add: query_run_append rows_unique query_step_def on_end_def settle_def)
  next
    case (Resolved v)
    with nr show ?thesis by simp
  next
    case (Rejected e)
    with True show ?thesis
      by (simp add: query_run_append rows_unique query_step_def on_end_def settle_def)
  qed
qed

text \<open>
  C10. Take the handle returned by \<open>query\<close> and any events \<open>evs\<close> while the stream
  is open (rows delivered, earlier calls of \<open>collectResults()\<close> or \<open>uniqueResult()\<close>),
  so that the accumulator may hold anything. A call of \<open>collectResults()\<close> then sets
  the accumulator to the empty list. If the rows \<open>rs\<close> follow and the stream ends, no
  handler has thrown, and a promise that resolves resolves with exactly the instances of
  \<open>rs\<close>, in order: everything delivered before the call is absent. It does resolve so
  unless \<open>uniqueResult()\<close> was called before.
\<close>

theorem collectResults_drops_earlier_rows:
  assumes "list_all streaming evs"
  shows "\<exists>s s1 s'.
           query_run (dao_model d) (fst (query d c q ps)) evs = Inr s
           \<and> query_step (dao_model d) s CallCollectResults = Inr s1 \<and> res s1 = AMany []
           \<and> query_run (dao_model d) (fst (query d c q ps))
                 (evs @ [CallCollectResults] @ map RowEv rs @ [EndEv]) = Inr s'
           \<and> (\<forall>v. promise s' = Resolved v \<longrightarrow>
                  v = Some (AMany (map (\<lambda>r. modelConstructor (dao_model d) (Some r)) rs)))
           \<and> (CallUniqueResult \<notin> set evs \<longrightarrow>
                  promise s' =
                    Resolved (Some (AMany (map (\<lambda>r. modelConstructor (dao_model d) (Some r)) rs))))"
proof -
  obtain s where s: "query_run (dao_model d) query_init evs = Inr s" "open_handle s"
      "uniqueResult s \<longrightarrow> uniqueResult query_init \<or> CallUniqueResult \<in> set evs"
    using open_run [OF open_init assms, of "dao_model d"] by blast
  have nu: "CallUniqueResult \<notin> set evs \<longrightarrow> \<not> uniqueResult s"
    using s(3) by (auto simp: query_init_def)
  obtain s' where s':
    "query_run (dao_model d) s ([CallCollectResults] @ map RowEv rs @ [EndEv]) = Inr s'"
    "\<forall>v. promise s' = Resolved v \<longrightarrow>
         v = Some (AMany (map (\<lambda>r. modelConstructor (dao_model d) (Some r)) rs))"
    "\<not> uniqueResult s \<longrightarrow>
       promise s' = Resolved (Some (AMany (map (\<lambda>r. modelConstructor (dao_model d) (Some r)) rs)))"
    using collect_then_rows [OF s(2), of "dao_model d" rs] by blast
  have whole: "query_run (dao_model d) query_init
                 (evs @ [CallCollectResults] @ map RowEv rs @ [EndEv]) = Inr s'"
    using s(1) s'(1) by (simp add: query_run_append)
  have step: "query_step (dao_model d) s CallCollectResults
                = Inr (s\<lparr>collectResults := True, res := AMany []\<rparr>)"
    by (simp add: query_step_def)
  have init: "fst (query d c q ps) = query_init"
    by (simp add: query_def)
  have all: "query_run (dao_model d) (fst (query d c q ps)) evs = Inr s
           \<and> query_step (dao_model d) s CallCollectResults
                 = Inr (s\<lparr>collectResults := True, res := AMany []\<rparr>)
           \<and> res (s\<lparr>collectResults := True, res := AMany []\<rparr>) = AMany []
           \<and> query_run (dao_model d) (fst (query d c q ps))
                 (evs @ [CallCollectResults] @ map RowEv rs @ [EndEv]) = Inr s'
           \<and> (\<forall>v. promise s' = Resolved v \<longrightarrow>
                  v = Some (AMany (map (\<lambda>r. modelConstructor (dao_model d) (Some r)) rs)))
           \<and> (CallUniqueResult \<notin> set evs \<longrightarrow>
                  promise s' =
                    Resolved (Some (AMany (map (\<lambda>r. modelConstructor (dao_model d) (Some r)) rs))))"
  proof (intro conjI)
    show "query_run (dao_model d) (fst (query d c q ps)) evs = Inr s"
      using s(1) init by simp
    show "query_step (dao_model d) s CallCollectResults
            = Inr (s\<lparr>collectResults := True, res := AMany []\<rparr>)"
      by (rule step)
    show "res (s\<lparr>collectResults := True, res := AMany []\<rparr>) = AMany []"
      by simp
    show "query_run (dao_model d) (fst (query d c q ps))
            (evs @ [CallCollectResults] @ map RowEv rs @ [EndEv]) = Inr s'"
      using whole init by simp
    show "\<forall>v. promise s' = Resolved v \<longrightarrow>
            v = Some (AMany (map (\<lambda>r. modelConstructor (dao_model d) (Some r)) rs))"
      by (rule s'(2))
    show "CallUniqueResult \<notin> set evs \<longrightarrow>
            promise s' =
              Resolved (Some (AMany (map (\<lambda>r. modelConstructor (dao_model d) (Some r)) rs)))"
      using nu s'(3) by blast
  qed
  show ?thesis
    apply (rule exI [of _ s])
    apply (rule exI [of _ "s\<lparr>collectResults := True, res := AMany []\<rparr>"])
    apply (rule exI [of _ s'])
    apply (rule all)
    done
qed

lemma two_collects_streaming:
  "list_all streaming [CallCollectResults, RowEv [(''id'', JNum 1), (''name'', JStr ''a'')]]"
  by (simp add: streaming_def)

text \<open>\<open>collectResults()\<close> called, one row collected, \<open>collectResults()\<close> called again,
  a second row: the list that resolves holds the second instance only.\<close>

theorem collectResults_drops_earlier_rows_witness:
  "\<exists>s'. query_run TestType (fst (query (the_dao TestType) (answering []) (Raw ''SELECT'') []))
          ([CallCollectResults, RowEv [(''id'', JNum 1), (''name'', JStr ''a'')]]
           @ [CallCollectResults] @ map RowEv [[(''id'', JNum 2), (''name'', JStr ''b'')]] @ [EndEv])
        = Inr s'
      \<and> promise s' =
          Resolved (Some (AMany [modelConstructor TestType
                                   (Some [(''id'', JNum 2), (''name'', JStr ''b'')])]))"
proof -
  have dm: "dao_model (the_dao TestType) = TestType"
    by (simp add: the_dao_def)
  obtain s' where
    run: "query_run TestType (fst (query (the_dao TestType) (answering []) (Raw ''SELECT'') []))
            ([CallCollectResults, RowEv [(''id'', JNum 1), (''name'', JStr ''a'')]]
             @ [CallCollectResults] @ map RowEv [[(''id'', JNum 2), (''name'', JStr ''b'')]]
             @ [EndEv]) = Inr s'"
    and res: "CallUniqueResult \<notin> set [CallCollectResults,
                                          RowEv [(''id'', JNum 1), (''name'', JStr ''a'')]] \<longrightarrow>
                promise s' =
                  Resolved (Some (AMany (map (\<lambda>r. modelConstructor TestType (Some r))
                                           [[(''id'', JNum 2), (''name'', JStr ''b'')]])))"
    using collectResults_drops_earlier_rows [OF two_collects_streaming,
        of "the_dao TestType" "answering []" "Raw ''SELECT''" "[]"
           "[[(''id'', JNum 2), (''name'', JStr ''b'')]]"]
    unfolding dm by blast
  from res have "promise s' =
      Resolved (Some (AMany [modelConstructor TestType
                               (Some [(''id'', JNum 2), (''name'', JStr ''b'')])]))"
    by simp
  with run show ?thesis by blast
qed

section \<open>save and update\<close>

text \<open>A base method that no attribute and no model method hides is what the proxy
  calls.\<close>

lemma call0_base:
  assumes "name \<in> set baseMethods"
    and "\<not> hasOwnProperty (current self) name"
    and "map_of (modelMethods m) name = None"
  shows "call0 m self name = call_base m name self"
proof -
  have a: "name \<noteq> ''id''" "name \<noteq> ''__model__''" "name \<noteq> ''__self__''" "\<not> inherited name"
    using assms(1) by (auto simp: baseMethods_def inherited_def Object_prototype_def hasOwnProperty_def)
  have b: "in_methods m name"
    using assms(1) by (simp add: in_methods_def methods_def)
  show ?thesis
    using a b assms by (simp add: call0_def id_alias_def in_obj_def Let_def)
qed

text \<open>Where the get trap yields a value that is not a function, the call is a
  TypeError.\<close>

lemma call0_not_a_function:
  assumes "proxy_get m self name = Val v" and "\<forall>f. v \<noteq> JFun f"
  shows "\<exists>msg. call0 m self name = Inl (TypeError msg)"
proof (cases "in_obj (id_alias m name) (current self)")
  case True
  with assms have "getProp (current self) (id_alias m name) = v"
    by (auto simp: proxy_get_def Let_def split: if_splits)
  with True assms show ?thesis
    by (cases v) (auto simp: call0_def Let_def)
next
  case False
  with assms have "\<not> in_methods m (id_alias m name)"
    by (auto simp: proxy_get_def Let_def split: if_splits)
  with False show ?thesis
    by (simp add: call0_def Let_def)
qed

text \<open>An attribute of the name of a base method hides it: with the value \<open>null\<close> the
  call is a TypeError.\<close>

lemma call0_hidden:
  assumes "name \<in> set baseMethods"
    and "map_of (current self) name = Some JNull"
  shows "call0 m self name = Inl (TypeError (name @ '' is not a function''))"
proof -
  have a: "name \<noteq> ''id''" "name \<noteq> ''__model__''" "name \<noteq> ''__self__''"
    using assms(1) by (auto simp: baseMethods_def)
  have b: "hasOwnProperty (current self) name"
    using assms(2) by (simp add: hasOwn_map_of)
  show ?thesis
    using a b assms(2) by (simp add: call0_def id_alias_def in_obj_def Let_def getProp_def)
qed

text \<open>
  C2. The claim: when \<open>save\<close> (or \<open>update\<close>) receives a returned row keyed by column
  names, the value of a column whose name differs from its attribute's is written onto
  that attribute. The code does not do this: the merge loop assigns \<open>obj[column]\<close>, and
  the set trap drops a name that is not an attribute. Here \<open>name\<close> is stored in the column
  \<open>full_name\<close>; the returned \<open>full_name\<close> is lost and only \<open>id\<close> is merged. The
  constructor, given the same row, does translate the column.
\<close>

theorem save_drops_aliased_column:
  "fst (save (the_dao TestAliased)
          (answering [[(''id'', JNum 1), (''full_name'', JStr ''Stored Name'')]])
          TestAliased (modelConstructor TestAliased (Some [(''name'', JStr ''typed name'')])) None)
     = Inr \<lparr> current = [(''id'', JNum 1), (''name'', JStr ''typed name'')], original = [],
             emitted = [(''change:all'', [JStr ''id'', JNull, JNum 1]),
                        (''change:id'', [JNull, JNum 1])] \<rparr>
   \<and> current (modelConstructor TestAliased
                (Some [(''id'', JNum 1), (''full_name'', JStr ''Stored Name'')]))
     = [(''id'', JNum 1), (''name'', JStr ''Stored Name'')]"
  by code_simp

text \<open>\<open>update\<close> merges the returned row by the same loop as \<open>save\<close>.\<close>

lemma update_drops_aliased_column:
  "fst (update (the_dao TestAliased)
          (answering [[(''id'', JNum 1), (''full_name'', JStr ''Stored Name'')]])
          TestAliased
          (assign TestAliased
             (modelConstructor TestAliased (Some [(''id'', JNum 1), (''name'', JStr ''old name'')]))
             (''name'', JStr ''typed name''))
          None)
     = Inr \<lparr> current = [(''id'', JNum 1), (''name'', JStr ''typed name'')], original = [],
             emitted = [(''change:all'', [JStr ''name'', JStr ''old name'', JStr ''typed name'']),
                        (''change:name'', [JStr ''old name'', JStr ''typed name'']),
                        (''change:all'', [JStr ''id'', JNum 1, JNum 1]),
                        (''change:id'', [JNum 1, JNum 1])] \<rparr>"
  by code_simp

text \<open>
  C4, as claimed: for every instance whose dirty set is empty, \<open>update\<close> still runs the
  \<open>postUpdate\<close> hooks and calls \<open>checkpoint()\<close>. An instance of \<open>HookedStrict\<close>
  built without a \<open>name\<close> has an empty dirty set and fails the validation: \<open>update\<close>
  ends with the \<open>ValidationError\<close>, after the \<open>preUpdate\<close> hooks and before the
  checkpoint and the \<open>postUpdate\<close> hooks.
\<close>

theorem update_clean_invalid_counterexample:
  "changed_all (modelConstructor HookedStrict (Some [(''id'', JNum 1)])) = []
   \<and> fst (update (the_dao HookedStrict) (answering []) HookedStrict
            (modelConstructor HookedStrict (Some [(''id'', JNum 1)])) None)
     = Inl (ValidationError [(''name'', JStr ''expected not null'')])"
  by code_simp

text \<open>
  C4, amended. When, inside \<open>update\<close> of \<open>dao.js\<close>, the \<open>preUpdate\<close> hooks have
  returned, the call \<open>obj.validate()\<close> has passed and the call \<open>obj.changed()\<close> has
  returned an empty mapping, \<open>update\<close> sends no statement (the connection is returned
  as it was), calls \<open>obj.checkpoint()\<close> and then runs the \<open>postUpdate\<close> hooks, in
  order, on the instance that call leaves.
\<close>

theorem update_clean_short_circuit:
  assumes "run_hooks (preUpdate (hooks m)) obj = Inr obj1"
    and "call0 m obj1 ''validate'' = Inr (r1, obj2)"
    and "call0 m obj2 ''changed'' = Inr (r2, obj3)"
    and "object_of r2 = Inr []"
  shows "update d c m obj os =
           (case call0 m obj3 ''checkpoint'' of
              Inl e \<Rightarrow> (Inl e, c)
            | Inr (r3, obj4) \<Rightarrow> (run_hooks (postUpdate (hooks m)) obj4, c))
       \<and> issued (snd (update d c m obj os)) = issued c"
  using assms by (simp add: update_def split: sum.splits prod.splits)

lemma Audited_pre:
  "run_hooks (preUpdate (hooks Audited))
     (modelConstructor Audited (Some [(''id'', JNum 1), (''name'', JStr ''a'')]))
   = Inr \<lparr> current = [(''id'', JNum 1), (''name'', JStr ''a'')], original = [],
           emitted = [(''pre1'', []), (''pre2'', [])] \<rparr>"
  by code_simp

lemma Audited_valid:
  "call0 Audited
     \<lparr> current = [(''id'', JNum 1), (''name'', JStr ''a'')], original = [],
       emitted = [(''pre1'', []), (''pre2'', [])] \<rparr> ''validate''
   = Inr (RVal JUndefined,
          \<lparr> current = [(''id'', JNum 1), (''name'', JStr ''a'')], original = [],
            emitted = [(''pre1'', []), (''pre2'', [])] \<rparr>)"
  by code_simp

lemma Audited_clean:
  "call0 Audited
     \<lparr> current = [(''id'', JNum 1), (''name'', JStr ''a'')], original = [],
       emitted = [(''pre1'', []), (''pre2'', [])] \<rparr> ''changed''
   = Inr (RObj [],
          \<lparr> current = [(''id'', JNum 1), (''name'', JStr ''a'')], original = [],
            emitted = [(''pre1'', []), (''pre2'', [])] \<rparr>)"
  by code_simp

lemma empty_mapping: "object_of (RObj []) = Inr []"
  by (simp add: object_of_def)

lemma Audited_checkpoint:
  "call0 Audited
     \<lparr> current = [(''id'', JNum 1), (''name'', JStr ''a'')], original = [],
       emitted = [(''pre1'', []), (''pre2'', [])] \<rparr> ''checkpoint''
   = Inr (RVal JUndefined,
          \<lparr> current = [(''id'', JNum 1), (''name'', JStr ''a'')], original = [],
            emitted = [(''pre1'', []), (''pre2'', []), (''checkpoint'', [])] \<rparr>)"
  by code_simp

lemma Audited_post:
  "run_hooks (postUpdate (hooks Audited))
     \<lparr> current = [(''id'', JNum 1), (''name'', JStr ''a'')], original = [],
       emitted = [(''pre1'', []), (''pre2'', []), (''checkpoint'', [])] \<rparr>
   = Inr \<lparr> current = [(''id'', JNum 1), (''name'', JStr ''a'')], original = [],
           emitted = [(''pre1'', []), (''pre2'', []), (''checkpoint'', []),
                      (''post1'', []), (''post2'', [])] \<rparr>"
  by code_simp

text \<open>The hooks of \<open>Audited\<close> and its \<open>checkpoint\<close> method each leave a mark: the two
  \<open>preUpdate\<close> hooks, the checkpoint, the two \<open>postUpdate\<close> hooks, and nothing sent.\<close>

theorem update_clean_short_circuit_witness:
  "update (the_dao Audited) (answering []) Audited
     (modelConstructor Audited (Some [(''id'', JNum 1), (''name'', JStr ''a'')])) None
   = (Inr \<lparr> current = [(''id'', JNum 1), (''name'', JStr ''a'')], original = [],
            emitted = [(''pre1'', []), (''pre2'', []), (''checkpoint'', []),
                       (''post1'', []), (''post2'', [])] \<rparr>,
      answering [])
   \<and> issued (answering []) = []"
  using update_clean_short_circuit [OF Audited_pre Audited_valid Audited_clean empty_mapping,
      of "the_dao Audited" "answering []" None]
    Audited_checkpoint Audited_post
  by (simp add: answering_def)

text \<open>With the base \<open>checkpoint\<close> the same run, less the mark.\<close>

lemma update_clean_Hooked:
  "fst (update (the_dao Hooked) (answering []) Hooked
          (modelConstructor Hooked (Some [(''id'', JNum 1), (''name'', JStr ''a'')])) None)
   = Inr \<lparr> current = [(''id'', JNum 1), (''name'', JStr ''a'')], original = [],
           emitted = [(''pre1'', []), (''pre2'', []), (''post1'', []), (''post2'', [])] \<rparr>
   \<and> issued (snd (update (the_dao Hooked) (answering []) Hooked
          (modelConstructor Hooked (Some [(''id'', JNum 1), (''name'', JStr ''a'')])) None)) = []"
  by code_simp



text \<open>The instances the constructor builds, and the writes through the proxy, keep the
  keys of \<open>current\<close> distinct.\<close>

lemma foldl_current_distinct:
  "distinct (map fst (current s0)) \<Longrightarrow>
     distinct (map fst (current
        (foldl (\<lambda>self na. self\<lparr>current := put (fst na) (f na) (current self)\<rparr>) s0 as)))"
  by (induction as arbitrary: s0) (simp_all add: distinct_put)

lemma ModelInstance_distinct:
  "initializer m = None \<Longrightarrow> distinct (map fst (current (ModelInstance m raw argv)))"
  by (simp add: ModelInstance_def foldl_current_distinct)

lemma assign_distinct:
  "distinct (map fst (current self)) \<Longrightarrow> distinct (map fst (current (assign m self w)))"
  by (simp add: assign_def proxy_set_def Let_def distinct_put)









text \<open>An identity left to the database is not sent.\<close>

lemma save_omits_null_identity:
  "issued (snd (save (the_dao TestType) (answering []) TestType
             (modelConstructor TestType (Some [(''name'', JStr ''test thingy'')])) None))
   = [(Insert ''test_types'' [(''name'', ''$1''), (''description'', ''$2'')],
       [JStr ''test thingy'', JStr ''''])]"
  by code_simp

section \<open>get\<close>

text \<open>
  C3, as claimed: \<open>get\<close> fails with an error when the connection returns more than one
  row. It does not: with two rows it returns \<open>null\<close>.
\<close>

theorem get_two_rows_counterexample:
  "fst (get (the_dao TestType)
          (answering [[(''id'', JNum 1), (''name'', JStr ''a'')],
                      [(''id'', JNum 1), (''name'', JStr ''b'')]])
          (JNum 1) None) = Inr None"
  by code_simp

text \<open>
  C3, amended. When the connection answers the SELECT with rows, \<open>get\<close> returns a newly
  constructed instance of the row if there is exactly one, and \<open>null\<close> for any other
  number of rows, zero or more than one; it never fails on the number of rows.
\<close>

theorem get_by_row_count:
  assumes "respond c (issued c)
             (Select (tableRef (schema_for d os) (table (dao_model d)))
                (id_text (dao_model d) @ '' = $1''),
              [ident]) = Inr rows"
  shows "fst (get d c ident os) =
           (if length rows = 1 then Inr (Some (modelConstructor (dao_model d) (Some (hd rows))))
            else Inr None)"
  using assms by (cases rows) (simp_all add: get_def queryAsync_def Let_def)

lemma answering_one_row:
  "respond (answering [[(''id'', JNum 1), (''name'', JStr ''a'')]])
     (issued (answering [[(''id'', JNum 1), (''name'', JStr ''a'')]]))
     (Select (tableRef (schema_for (the_dao TestType) None) (table (dao_model (the_dao TestType))))
        (id_text (dao_model (the_dao TestType)) @ '' = $1''),
      [JNum 1]) = Inr [[(''id'', JNum 1), (''name'', JStr ''a'')]]"
  by (simp add: answering_def)

theorem get_by_row_count_witness:
  "fst (get (the_dao TestType) (answering [[(''id'', JNum 1), (''name'', JStr ''a'')]])
          (JNum 1) None)
   = Inr (Some (modelConstructor TestType (Some [(''id'', JNum 1), (''name'', JStr ''a'')])))"
  using get_by_row_count [OF answering_one_row]
  by (simp add: the_dao_def)

section \<open>Transactions\<close>

lemma run_work_appends: "\<exists>xs. issued (snd (run_work w c)) = issued c @ xs"
proof (induction w arbitrary: c)
  case (Done r)
  then show ?case by simp
next
  case (Query q ps k)
  obtain xs where
    "issued (snd (run_work (k (fst (queryAsync c q ps))) (snd (queryAsync c q ps))))
       = issued (snd (queryAsync c q ps)) @ xs"
    using Query.IH [of "k (fst (queryAsync c q ps))" "snd (queryAsync c q ps)"] by auto
  then show ?case by (simp add: queryAsync_def split: prod.splits)
qed

lemma catch_rollback_eq:
  "catch_rollback c ex =
     ((case respond c (issued c) (Raw ''ROLLBACK;'', []) of Inl ex2 \<Rightarrow> Inl ex2 | Inr _ \<Rightarrow> Inl ex),
      c\<lparr>issued := issued c @ [(Raw ''ROLLBACK;'', [])]\<rparr>)"
  by (simp add: catch_rollback_def queryAsync_def split: sum.splits)

text \<open>
  C5, as claimed: if the unit of work fails, \<open>inTransaction\<close> re-raises exactly its
  failure, never a substitute. When the ROLLBACK sent by the \<open>catch\<close> block fails too (a
  lost connection), the failure of the ROLLBACK is raised and the original one is lost.
\<close>

theorem rollback_failure_counterexample:
  "fst (inTransaction failing_rollback (Done (Inl (Error ''boom'')) :: unit work) None)
     = Inl (Error ''connection lost'')"
  by code_simp

text \<open>
  C5, amended. \<open>inTransaction\<close> sends BEGIN first. When BEGIN has succeeded and the unit
  of work succeeds, the next statement is ROLLBACK if \<open>opts.readOnly\<close> is true and COMMIT
  otherwise, and when that statement succeeds the result of the unit of work is returned.
  When the unit of work fails, one ROLLBACK is sent; if it succeeds the original failure
  is re-raised unchanged, and if the ROLLBACK fails its own failure is raised instead.
\<close>

theorem inTransaction_outcomes:
  "(\<exists>rest. issued (snd (inTransaction c fn os)) = issued c @ (Raw ''BEGIN;'', []) # rest)
   \<and> (\<forall>rows outcome c2.
        respond c (issued c) (Raw ''BEGIN;'', []) = Inr rows
        \<and> run_work fn (c\<lparr>issued := issued c @ [(Raw ''BEGIN;'', [])]\<rparr>) = (outcome, c2) \<longrightarrow>
          (\<forall>r. outcome = Inr r \<longrightarrow>
             (\<exists>rest. issued (snd (inTransaction c fn os))
                       = issued c2 @ (Raw (end_statement os), []) # rest)
             \<and> (\<forall>rows'. respond c2 (issued c2) (Raw (end_statement os), []) = Inr rows' \<longrightarrow>
                  inTransaction c fn os
                    = (Inr r, c2\<lparr>issued := issued c2 @ [(Raw (end_statement os), [])]\<rparr>)))
          \<and> (\<forall>ex. outcome = Inl ex \<longrightarrow>
               inTransaction c fn os =
                 ((case respond c2 (issued c2) (Raw ''ROLLBACK;'', []) of
                     Inl ex2 \<Rightarrow> Inl ex2 | Inr _ \<Rightarrow> Inl ex),
                  c2\<lparr>issued := issued c2 @ [(Raw ''ROLLBACK;'', [])]\<rparr>)))"
proof -
  obtain xs where xs:
    "issued (snd (run_work fn (c\<lparr>issued := issued c @ [(Raw ''BEGIN;'', [])]\<rparr>)))
       = issued c @ (Raw ''BEGIN;'', []) # xs"
    using run_work_appends [of fn "c\<lparr>issued := issued c @ [(Raw ''BEGIN;'', [])]\<rparr>"] by auto
  have first: "\<exists>rest. issued (snd (inTransaction c fn os)) = issued c @ (Raw ''BEGIN;'', []) # rest"
    using xs
    by (auto simp: inTransaction_def catch_rollback_eq queryAsync_def
          split: sum.splits prod.splits)
  have rest: "\<And>rows outcome c2.
        respond c (issued c) (Raw ''BEGIN;'', []) = Inr rows \<Longrightarrow>
        run_work fn (c\<lparr>issued := issued c @ [(Raw ''BEGIN;'', [])]\<rparr>) = (outcome, c2) \<Longrightarrow>
          (\<forall>r. outcome = Inr r \<longrightarrow>
             (\<exists>rest. issued (snd (inTransaction c fn os))
                       = issued c2 @ (Raw (end_statement os), []) # rest)
             \<and> (\<forall>rows'. respond c2 (issued c2) (Raw (end_statement os), []) = Inr rows' \<longrightarrow>
                  inTransaction c fn os
                    = (Inr r, c2\<lparr>issued := issued c2 @ [(Raw (end_statement os), [])]\<rparr>)))
          \<and> (\<forall>ex. outcome = Inl ex \<longrightarrow>
               inTransaction c fn os =
                 ((case respond c2 (issued c2) (Raw ''ROLLBACK;'', []) of
                     Inl ex2 \<Rightarrow> Inl ex2 | Inr _ \<Rightarrow> Inl ex),
                  c2\<lparr>issued := issued c2 @ [(Raw ''ROLLBACK;'', [])]\<rparr>))"
    by (auto simp: inTransaction_def catch_rollback_eq queryAsync_def end_statement_def
          split: sum.splits)
  show ?thesis
    using first rest by blast
qed

lemma answering_begin:
  "respond (answering []) (issued (answering [])) (Raw ''BEGIN;'', []) = Inr []"
  by (simp add: answering_def)

lemma insert_then_fail_run:
  "run_work insert_then_fail ((answering [])\<lparr>issued := issued (answering []) @ [(Raw ''BEGIN;'', [])]\<rparr>)
   = (Inl (Error ''boom''),
      (answering [])\<lparr>issued := [(Raw ''BEGIN;'', []),
                                 (Insert ''test_types'' [(''name'', ''$1'')], [JStr ''test thingy''])]\<rparr>)"
  by (simp add: answering_def insert_then_fail_def queryAsync_def)

text \<open>A unit of work that fails after an INSERT: BEGIN, the INSERT, ROLLBACK, and the
  original failure.\<close>

theorem inTransaction_outcomes_witness:
  "inTransaction (answering []) insert_then_fail None
   = (Inl (Error ''boom''),
      (answering [])\<lparr>issued := [(Raw ''BEGIN;'', []),
                                 (Insert ''test_types'' [(''name'', ''$1'')], [JStr ''test thingy'']),
                                 (Raw ''ROLLBACK;'', [])]\<rparr>)"
  using inTransaction_outcomes [of "answering []" insert_then_fail None]
    answering_begin insert_then_fail_run
  by (simp add: answering_def)


end
